theory Spec2Isabelle
  imports Complex_Main "HOL-Library.Sublist" "HOL-Library.Option_ord" "HOL-Library.Product_Lexorder"
begin

section \<open>JavaScript values used by the hotel search core\<close>

text \<open>
  Exceptions are values. The first five are raised by the runtime or by a collaborator
  (the document store, the HTTP transport); the last three are the errors the service
  itself throws:
  \<^item> \<open>SearchFailed\<close> is \<^verbatim>\<open>new Error('Failed to search hotels via TSS API')\<close>,
  \<^item> \<open>NameSearchFailed e\<close> is \<^verbatim>\<open>new Error(`Failed to search hotel by name: ${e.message}`)\<close>,
  \<^item> \<open>AlternativesFailed e\<close> is \<^verbatim>\<open>new Error(`Failed to get alternative hotels: ${e.message}`)\<close>.
\<close>

datatype error =
    TypeError
  | RangeError
  | SyntaxError
  | StoreError
  | TransportError
  | SearchFailed
  | NameSearchFailed error
  | AlternativesFailed error

text \<open>
  Strings are byte strings; \<^verbatim>\<open>String.prototype.toLowerCase\<close> is modelled on the ASCII
  letters (code points 65 to 90 move up by 32), every other character is kept.
\<close>

definition lower_char :: "char \<Rightarrow> char" where
  "lower_char c =
     (let n = (of_char c :: nat) in if 65 \<le> n \<and> n \<le> 90 then char_of (n + 32) else c)"

definition toLowerCase :: "string \<Rightarrow> string" where
  "toLowerCase s = map lower_char s"

text \<open>
  The class \<^verbatim>\<open>\s\<close> of a regular expression, on bytes: tab, line feed, vertical tab,
  form feed, carriage return and space.
\<close>

definition is_space :: "char \<Rightarrow> bool" where
  "is_space c = (let n = (of_char c :: nat) in (9 \<le> n \<and> n \<le> 13) \<or> n = 32)"

text \<open>
  \<^verbatim>\<open>s.replace(/\s+/g, '-')\<close>: every maximal run of white space becomes one hyphen.
\<close>

function replace_ws :: "string \<Rightarrow> string" where
  "replace_ws [] = []"
| "replace_ws (c # cs) =
     (if is_space c then CHR ''-'' # replace_ws (dropWhile is_space cs)
      else c # replace_ws cs)"
  by pat_completeness auto
termination
  by (relation "measure length") (auto simp: length_dropWhile_le less_Suc_eq_le)

text \<open>\<^verbatim>\<open>a.includes(b)\<close>: \<open>b\<close> occurs in \<open>a\<close> as a contiguous piece.\<close>

fun includes_str :: "string \<Rightarrow> string \<Rightarrow> bool" where
  "includes_str [] b = (b = [])"
| "includes_str (c # cs) b = (prefix b (c # cs) \<or> includes_str cs b)"

text \<open>
  \<^verbatim>\<open>parts.join(sep)\<close> on strings.
\<close>

fun join :: "string \<Rightarrow> string list \<Rightarrow> string" where
  "join sep [] = []"
| "join sep [p] = p"
| "join sep (p # q # ps) = p @ sep @ join sep (q # ps)"

text \<open>Decimal rendering of integers, as a template literal prints an integral Number.\<close>

definition digit_char :: "nat \<Rightarrow> char" where
  "digit_char d = char_of (48 + d)"

fun digits :: "nat \<Rightarrow> string" where
  "digits n = (if n < 10 then [digit_char n] else digits (n div 10) @ [digit_char (n mod 10)])"

declare digits.simps [simp del]

definition show_int :: "int \<Rightarrow> string" where
  "show_int i = (if i < 0 then CHR ''-'' # digits (nat (- i)) else digits (nat i))"

definition pad_left :: "nat \<Rightarrow> string \<Rightarrow> string" where
  "pad_left w s = replicate (w - length s) CHR ''0'' @ s"

text \<open>
  A \<^verbatim>\<open>Date\<close> is either invalid or a time value in milliseconds since the epoch (UTC).
  \<^verbatim>\<open>toISOString\<close> raises a RangeError on an invalid date; of its output only the part
  before \<^verbatim>\<open>'T'\<close> is used, the UTC calendar day, computed from the day number.
\<close>

datatype date = InvalidDate | Time int

definition ms_per_day :: int where
  "ms_per_day = 86400000"

definition ms_per_hour :: int where
  "ms_per_hour = 3600000"

definition utc_day :: "int \<Rightarrow> int" where
  "utc_day t = t div ms_per_day"

definition civil_from_days :: "int \<Rightarrow> int \<times> int \<times> int" where
  "civil_from_days z0 =
     (let z = z0 + 719468;
          era = z div 146097;
          doe = z - era * 146097;
          yoe = (doe - doe div 1460 + doe div 36524 - doe div 146096) div 365;
          y = yoe + era * 400;
          doy = doe - (365 * yoe + yoe div 4 - yoe div 100);
          mp = (5 * doy + 2) div 153;
          d = doy - (153 * mp + 2) div 5 + 1;
          m = (if mp < 10 then mp + 3 else mp - 9)
      in (if m \<le> 2 then y + 1 else y, m, d))"

definition show_year :: "int \<Rightarrow> string" where
  "show_year y =
     (if 0 \<le> y \<and> y \<le> 9999 then pad_left 4 (digits (nat y))
      else (if y < 0 then CHR ''-'' else CHR ''+'') # pad_left 6 (digits (nat \<bar>y\<bar>)))"

definition iso_date :: "int \<Rightarrow> string" where
  "iso_date t =
     (case civil_from_days (utc_day t) of
        (y, m, d) \<Rightarrow>
          show_year y @ ''-'' @ pad_left 2 (digits (nat m)) @ ''-'' @ pad_left 2 (digits (nat d)))"

definition toISODate :: "date \<Rightarrow> error + string" where
  "toISODate d = (case d of InvalidDate \<Rightarrow> Inl RangeError | Time t \<Rightarrow> Inr (iso_date t))"

text \<open>\<^verbatim>\<open>a < b\<close> on dates compares the time values; an invalid date compares false.\<close>

definition date_lt :: "date \<Rightarrow> int \<Rightarrow> bool" where
  "date_lt d t = (case d of InvalidDate \<Rightarrow> False | Time u \<Rightarrow> u < t)"

section \<open>Hotel records\<close>

text \<open>
  A record of the external inventory service, as \<^verbatim>\<open>formatHotelResults\<close> and
  \<^verbatim>\<open>formatHotelDetails\<close> read it. Every property may be absent (\<open>None\<close> stands for
  \<^verbatim>\<open>undefined\<close> and \<^verbatim>\<open>null\<close>). Numbers are exact rationals.
\<close>

record raw_price =
  total :: "rat option"
  currency :: "string option"
  perNight :: "rat option"

record raw_hotel =
  id :: "string option"
  hotelId :: "string option"
  name :: "string option"
  hotelName :: "string option"
  address :: "string option"
  city :: "string option"
  country :: "string option"
  latitude :: "rat option"
  longitude :: "rat option"
  starRating :: "rat option"
  category :: "rat option"
  reviewScore :: "rat option"
  rating :: "rat option"
  reviewCount :: "rat option"
  numberOfReviews :: "rat option"
  price :: "raw_price option"
  totalPrice :: "rat option"
  pricePerNight :: "rat option"
  amenities :: "string list option"
  facilities :: "string list option"
  images :: "string list option"
  photos :: "string list option"
  description :: "string option"
  hotelDescription :: "string option"
  distance :: "rat option"
  availability :: "string option"

text \<open>
  The normalised hotel the service hands out. \<open>h_price\<close>, \<open>h_distance\<close> and
  \<open>h_availability\<close> are set by \<^verbatim>\<open>formatHotelResults\<close> only; the \<^verbatim>\<open>rooms\<close>,
  \<^verbatim>\<open>policies\<close> and \<^verbatim>\<open>contact\<close> properties that \<^verbatim>\<open>formatHotelDetails\<close> adds are
  read by none of the operations below and are left out.
\<close>

record fmt_price =
  amount :: "rat option"
  p_currency :: string
  p_perNight :: "rat option"

record fmt_hotel =
  h_id :: "string option"
  h_name :: "string option"
  h_address :: "string option"
  h_city :: "string option"
  h_country :: "string option"
  h_latitude :: "rat option"
  h_longitude :: "rat option"
  h_starRating :: "rat option"
  h_reviewScore :: "rat option"
  h_reviewCount :: "rat option"
  h_price :: "fmt_price option"
  h_amenities :: "string list"
  h_images :: "string list"
  h_description :: "string option"
  h_distance :: "rat option"
  h_availability :: "string option"

text \<open>
  Truthiness: an absent value, the number zero and the empty string are falsy; an array
  is truthy, empty or not. \<open>or_num a b\<close> is \<^verbatim>\<open>a || b\<close> on optional Numbers, \<open>or_str\<close> on
  optional strings, \<open>or_list\<close> on optional arrays.
\<close>

definition truthy_num :: "rat option \<Rightarrow> bool" where
  "truthy_num n = (case n of None \<Rightarrow> False | Some v \<Rightarrow> v \<noteq> 0)"

definition truthy_str :: "string option \<Rightarrow> bool" where
  "truthy_str s = (case s of None \<Rightarrow> False | Some v \<Rightarrow> v \<noteq> [])"

definition or_num :: "rat option \<Rightarrow> rat option \<Rightarrow> rat option" where
  "or_num a b = (if truthy_num a then a else b)"

definition or_str :: "string option \<Rightarrow> string option \<Rightarrow> string option" where
  "or_str a b = (if truthy_str a then a else b)"

definition or_list :: "string list option \<Rightarrow> string list option \<Rightarrow> string list option" where
  "or_list a b = (case a of Some xs \<Rightarrow> Some xs | None \<Rightarrow> b)"

text \<open>The same with a default that is always there: \<^verbatim>\<open>a || 'EUR'\<close>, \<^verbatim>\<open>a || []\<close>.\<close>

definition str_or :: "string option \<Rightarrow> string \<Rightarrow> string" where
  "str_or a d = (case a of None \<Rightarrow> d | Some v \<Rightarrow> if v \<noteq> [] then v else d)"

definition list_or :: "string list option \<Rightarrow> string list \<Rightarrow> string list" where
  "list_or a d = (case a of None \<Rightarrow> d | Some xs \<Rightarrow> xs)"

text \<open>
  A document of the hotel directory (models/Hotel.js), with the paths the operations below
  read or write. \<open>d_oid\<close> is \<^verbatim>\<open>_id\<close>; \<open>d_address\<close>, \<open>d_city\<close> and \<open>d_country\<close> are the
  paths under \<^verbatim>\<open>location\<close>; \<open>d_verificationHistory\<close> and \<open>d_popularityScore\<close> the paths
  under \<^verbatim>\<open>searchMetadata\<close>. \<open>d_availability\<close> is the path \<^verbatim>\<open>availability\<close> that the
  fallback query of the service filters on; the schema does not declare it, and no write
  below sets it.
\<close>

datatype hotel_status = HotelActive | HotelInactive | HotelPending | HotelSuspended

record verification =
  originalQuery :: string
  v_confidence :: rat
  verified :: bool

record price_range =
  pr_min :: "rat option"
  pr_max :: "rat option"

record hotel_doc =
  d_oid :: nat
  d_hotelId :: "string option"
  d_name :: "string option"
  d_description :: "string option"
  d_address :: "string option"
  d_city :: "string option"
  d_country :: "string option"
  d_starRating :: "rat option"
  d_reviewScore :: "rat option"
  d_reviewCount :: "rat option"
  d_priceRange :: price_range
  d_amenities :: "string list"
  d_images :: "string list"
  d_verificationHistory :: "verification list"
  d_popularityScore :: int
  d_status :: hotel_status
  d_availability :: "string option"
  d_isFeatured :: bool

section \<open>The world the service runs in\<close>

text \<open>
  The parameters of a search. The location is a string; a date may be invalid; the counts
  and the filters may be absent.
\<close>

record filters =
  minRating :: "int option"
  maxPrice :: "int option"
  amenities_filter :: "string list"
  hotelChain :: "string option"

record search_params =
  location :: string
  checkIn :: date
  checkOut :: date
  rooms :: "int option"
  guests :: "int option"
  additionalFilters :: "filters option"

text \<open>
  An entry of the cache, with the paths the operations below read or write (\<open>hitCount\<close>
  and \<open>lastAccessed\<close> are the paths under \<^verbatim>\<open>cacheMetadata\<close>). Times are milliseconds
  since the epoch.
\<close>

datatype cache_status = Active | Expired | Invalid

record cache_results =
  res_hotels :: "fmt_hotel list"
  res_totalResults :: int
  searchTimestamp :: int

record cache_entry =
  searchKey :: string
  searchParams :: search_params
  results :: cache_results
  hitCount :: int
  lastAccessed :: int
  expiresAt :: int
  isExpired :: bool
  status :: cache_status

text \<open>
  The two collections are lists of documents. The collaborators are parameters: the clock
  (one reading per operation), the inventory service's answer to a search, the regular
  expression engine (\<open>None\<close> when the pattern does not compile, else its \<^verbatim>\<open>test\<close>), and
  for each store operation whether it rejects and with what.
\<close>

record store =
  cache :: "cache_entry list"
  directory :: "hotel_doc list"

record search_payload =
  destination :: string
  checkInDate :: date
  checkOutDate :: date
  adults :: int
  children :: int
  pl_currency :: string
  nationality :: string

record api_data =
  hotels :: "raw_hotel list option"
  totalResults :: "int option"

record env =
  now :: int
  tss_search :: "search_payload \<Rightarrow> error + api_data option"
  regexp :: "string \<Rightarrow> (string \<Rightarrow> bool) option"
  cache_find_fault :: "error option"
  cache_save_fault :: "error option"
  cache_update_fault :: "error option"
  hotel_find_fault :: "error option"
  hotel_update_fault :: "string option \<Rightarrow> error option"

section \<open>The search-result cache (models/hotelSearchCache.js)\<close>

text \<open>
  The counts and the numeric filters are integral Numbers. \<open>int_or n d\<close> is \<^verbatim>\<open>n || d\<close>
  with a default \<open>d\<close>; a filter that is absent or falsy adds no part to the key.
\<close>

definition int_or :: "int option \<Rightarrow> int \<Rightarrow> int" where
  "int_or n d = (case n of None \<Rightarrow> d | Some v \<Rightarrow> if v \<noteq> 0 then v else d)"

definition num_part :: "string \<Rightarrow> int option \<Rightarrow> string list" where
  "num_part tag n = (case n of None \<Rightarrow> [] | Some v \<Rightarrow> if v \<noteq> 0 then [tag @ show_int v] else [])"

definition chain_part :: "string option \<Rightarrow> string list" where
  "chain_part c =
     (case c of None \<Rightarrow> [] | Some v \<Rightarrow> if v \<noteq> [] then [''chain'' @ toLowerCase v] else [])"

definition filter_parts :: "filters option \<Rightarrow> string list" where
  "filter_parts af =
     (case af of
        None \<Rightarrow> []
      | Some f \<Rightarrow>
          num_part ''minr'' (minRating f) @ num_part ''maxp'' (maxPrice f) @
          chain_part (hotelChain f))"

text \<open>
  The five fixed parts and the parts of the filters, joined by an underscore. An invalid
  date raises the RangeError of \<^verbatim>\<open>toISOString\<close>.
\<close>

definition generateSearchKey :: "search_params \<Rightarrow> error + string" where
  "generateSearchKey p =
     (case toISODate (checkIn p) of
        Inl e \<Rightarrow> Inl e
      | Inr ci \<Rightarrow>
          (case toISODate (checkOut p) of
             Inl e \<Rightarrow> Inl e
           | Inr co \<Rightarrow>
               Inr (join ''_''
                 ([replace_ws (toLowerCase (location p)), ci, co,
                   ''r'' @ show_int (int_or (rooms p) 1),
                   ''g'' @ show_int (int_or (guests p) 1)]
                  @ filter_parts (additionalFilters p)))))"

text \<open>
  \<^verbatim>\<open>findOne\<close> with the four conditions of the source: the key, the status, the flag and
  an expiry strictly after the clock. The key is computed first, outside the query.
\<close>

definition findValidCache :: "env \<Rightarrow> store \<Rightarrow> search_params \<Rightarrow> error + cache_entry option" where
  "findValidCache e s p =
     (case generateSearchKey p of
        Inl err \<Rightarrow> Inl err
      | Inr k \<Rightarrow>
          (case cache_find_fault e of
             Some err \<Rightarrow> Inl err
           | None \<Rightarrow>
               Inr (find (\<lambda>ent. searchKey ent = k \<and> status ent = Active \<and> \<not> isExpired ent \<and>
                                  now e < expiresAt ent) (cache s))))"

text \<open>
  \<^verbatim>\<open>findOneAndUpdate\<close> with \<^verbatim>\<open>upsert\<close>: the first document the filter selects is
  updated, and a new one is inserted when there is none.
\<close>

fun upsert_by :: "('a \<Rightarrow> bool) \<Rightarrow> ('a \<Rightarrow> 'a) \<Rightarrow> 'a \<Rightarrow> 'a list \<Rightarrow> 'a \<times> 'a list" where
  "upsert_by P upd new [] = (new, [new])"
| "upsert_by P upd new (x # xs) =
     (if P x then (upd x, upd x # xs)
      else (case upsert_by P upd new xs of (y, ys) \<Rightarrow> (y, x # ys)))"

text \<open>
  The write goes through \<^verbatim>\<open>findOneAndUpdate\<close>, which runs no \<^verbatim>\<open>save\<close> middleware: the
  document is written with the status and the flag the update names. The metadata of an
  inserted document starts from the schema defaults (hit count 0) before \<^verbatim>\<open>$inc\<close>.
\<close>

definition createOrUpdateCache ::
    "env \<Rightarrow> store \<Rightarrow> search_params \<Rightarrow> cache_results \<Rightarrow> int \<Rightarrow> error + cache_entry \<times> store" where
  "createOrUpdateCache e s p r ttlHours =
     (case generateSearchKey p of
        Inl err \<Rightarrow> Inl err
      | Inr k \<Rightarrow>
          (case cache_update_fault e of
             Some err \<Rightarrow> Inl err
           | None \<Rightarrow>
               (let expires = now e + ttlHours * ms_per_hour;
                    upd = (\<lambda>ent. ent\<lparr>searchKey := k, searchParams := p, results := r,
                                      expiresAt := expires, status := Active, isExpired := False,
                                      hitCount := hitCount ent + 1, lastAccessed := now e\<rparr>);
                    new = \<lparr>searchKey = k, searchParams = p, results = r, hitCount = 1,
                            lastAccessed = now e, expiresAt = expires, isExpired = False,
                            status = Active\<rparr>
                in (case upsert_by (\<lambda>ent. searchKey ent = k) upd new (cache s) of
                      (ent, c) \<Rightarrow> Inr (ent, s\<lparr>cache := c\<rparr>)))))"

text \<open>
  The \<^verbatim>\<open>pre('save')\<close> middleware: \<open>today\<close> is the clock set back to midnight (the
  process runs in UTC).
\<close>

definition pre_save :: "env \<Rightarrow> cache_entry \<Rightarrow> cache_entry" where
  "pre_save e ent =
     (let today = now e - now e mod ms_per_day
      in if date_lt (checkOut (searchParams ent)) today
         then ent\<lparr>status := Expired, isExpired := True\<rparr> else ent)"

text \<open>\<^verbatim>\<open>doc.save()\<close>: the middleware runs, then the document replaces its stored copy.\<close>

definition save :: "env \<Rightarrow> store \<Rightarrow> cache_entry \<Rightarrow> error + cache_entry \<times> store" where
  "save e s ent =
     (case cache_save_fault e of
        Some err \<Rightarrow> Inl err
      | None \<Rightarrow>
          (let ent' = pre_save e ent
           in Inr (ent', s\<lparr>cache := map (\<lambda>x. if searchKey x = searchKey ent' then ent' else x)
                                          (cache s)\<rparr>)))"

definition recordHit :: "env \<Rightarrow> store \<Rightarrow> cache_entry \<Rightarrow> error + cache_entry \<times> store" where
  "recordHit e s ent = save e s (ent\<lparr>hitCount := hitCount ent + 1, lastAccessed := now e\<rparr>)"

section \<open>The hotel directory (models/Hotel.js)\<close>
















section \<open>The search and verification service (services/hotelService.js)\<close>

definition formatHotel :: "raw_hotel \<Rightarrow> fmt_hotel" where
  "formatHotel hotel =
     \<lparr>h_id = or_str (id hotel) (hotelId hotel),
      h_name = or_str (name hotel) (hotelName hotel),
      h_address = address hotel,
      h_city = city hotel,
      h_country = country hotel,
      h_latitude = latitude hotel,
      h_longitude = longitude hotel,
      h_starRating = or_num (starRating hotel) (category hotel),
      h_reviewScore = or_num (reviewScore hotel) (rating hotel),
      h_reviewCount = or_num (reviewCount hotel) (numberOfReviews hotel),
      h_price = Some
        \<lparr>amount = or_num (Option.bind (price hotel) total) (totalPrice hotel),
         p_currency = str_or (Option.bind (price hotel) currency) ''EUR'',
         p_perNight = or_num (Option.bind (price hotel) perNight) (pricePerNight hotel)\<rparr>,
      h_amenities = list_or (or_list (amenities hotel) (facilities hotel)) [],
      h_images = list_or (or_list (images hotel) (photos hotel)) [],
      h_description = or_str (description hotel) (hotelDescription hotel),
      h_distance = distance hotel,
      h_availability = Some (str_or (availability hotel) ''available'')\<rparr>"

definition formatHotelResults :: "raw_hotel list \<Rightarrow> fmt_hotel list" where
  "formatHotelResults hs = map formatHotel hs"

definition formatHotelDetails :: "raw_hotel \<Rightarrow> fmt_hotel" where
  "formatHotelDetails hotel =
     \<lparr>h_id = or_str (id hotel) (hotelId hotel),
      h_name = or_str (name hotel) (hotelName hotel),
      h_address = address hotel,
      h_city = city hotel,
      h_country = country hotel,
      h_latitude = latitude hotel,
      h_longitude = longitude hotel,
      h_starRating = or_num (starRating hotel) (category hotel),
      h_reviewScore = or_num (reviewScore hotel) (rating hotel),
      h_reviewCount = or_num (reviewCount hotel) (numberOfReviews hotel),
      h_price = None,
      h_amenities = list_or (or_list (amenities hotel) (facilities hotel)) [],
      h_images = list_or (or_list (images hotel) (photos hotel)) [],
      h_description = or_str (description hotel) (hotelDescription hotel),
      h_distance = None,
      h_availability = None\<rparr>"

text \<open>
  \<^verbatim>\<open>doc.toObject()\<close>: the plain object of a directory document, seen through the
  properties \<^verbatim>\<open>formatHotelDetails\<close> reads. The schema keeps the address under
  \<^verbatim>\<open>location\<close>, so the top-level \<^verbatim>\<open>address\<close>, \<^verbatim>\<open>city\<close> and \<^verbatim>\<open>country\<close> are absent;
  \<^verbatim>\<open>id\<close> is the virtual that prints \<^verbatim>\<open>_id\<close>.
\<close>

definition toObject :: "hotel_doc \<Rightarrow> raw_hotel" where
  "toObject d =
     \<lparr>id = Some (show_int (int (d_oid d))), hotelId = d_hotelId d,
      name = d_name d, hotelName = None,
      address = None, city = None, country = None, latitude = None, longitude = None,
      starRating = d_starRating d, category = None,
      reviewScore = d_reviewScore d, rating = None,
      reviewCount = d_reviewCount d, numberOfReviews = None,
      price = None, totalPrice = None, pricePerNight = None,
      amenities = Some (d_amenities d), facilities = None,
      images = Some (d_images d), photos = None,
      description = d_description d, hotelDescription = None,
      distance = None, availability = d_availability d\<rparr>"

record db_result =
  db_hotels :: "fmt_hotel list"
  db_total :: int

definition regex_field :: "(string \<Rightarrow> bool) \<Rightarrow> string option \<Rightarrow> bool" where
  "regex_field m f = (case f of None \<Rightarrow> False | Some v \<Rightarrow> m v)"

text \<open>
  The whole body is inside \<^verbatim>\<open>try\<close>: a pattern that does not compile and a rejected
  query both end in the \<^verbatim>\<open>catch\<close>, which returns the empty result.
\<close>

definition searchHotelsFromDatabase :: "env \<Rightarrow> store \<Rightarrow> search_params \<Rightarrow> db_result" where
  "searchHotelsFromDatabase e s p =
     (case regexp e (location p) of
        None \<Rightarrow> \<lparr>db_hotels = [], db_total = 0\<rparr>
      | Some m \<Rightarrow>
          (case hotel_find_fault e of
             Some err \<Rightarrow> \<lparr>db_hotels = [], db_total = 0\<rparr>
           | None \<Rightarrow>
               (let found = take 20 (filter
                      (\<lambda>d. (regex_field m (d_city d) \<or> regex_field m (d_address d)) \<and>
                            d_status d = HotelActive \<and> d_availability d = Some ''available'')
                      (directory s))
                in \<lparr>db_hotels = map (\<lambda>d. formatHotelDetails (toObject d)) found,
                    db_total = int (length found)\<rparr>)))"

text \<open>
  The upsert by \<^verbatim>\<open>hotelId\<close>. Its own \<^verbatim>\<open>try\<close>/\<^verbatim>\<open>catch\<close> swallows a rejected write: the
  store is then unchanged. An inserted document takes the next free \<^verbatim>\<open>_id\<close> and the
  schema defaults.
\<close>

definition fresh_oid :: "hotel_doc list \<Rightarrow> nat" where
  "fresh_oid ds = Suc (fold max (map d_oid ds) 0)"

definition updateOrCreateHotel :: "env \<Rightarrow> store \<Rightarrow> fmt_hotel \<Rightarrow> store" where
  "updateOrCreateHotel e s formattedHotel =
     (case hotel_update_fault e (h_id formattedHotel) of
        Some err \<Rightarrow> s
      | None \<Rightarrow>
          (let upd = (\<lambda>d. d\<lparr>d_hotelId := h_id formattedHotel, d_name := h_name formattedHotel,
                             d_address := h_address formattedHotel,
                             d_city := h_city formattedHotel,
                             d_country := h_country formattedHotel,
                             d_starRating := h_starRating formattedHotel,
                             d_reviewScore := h_reviewScore formattedHotel,
                             d_reviewCount := h_reviewCount formattedHotel,
                             d_description := h_description formattedHotel,
                             d_amenities := h_amenities formattedHotel,
                             d_images := h_images formattedHotel,
                             d_status := HotelActive\<rparr>);
               new = upd \<lparr>d_oid = fresh_oid (directory s), d_hotelId = None, d_name = None,
                           d_description = None, d_address = None, d_city = None,
                           d_country = None, d_starRating = None, d_reviewScore = None,
                           d_reviewCount = Some 0,
                           d_priceRange = \<lparr>pr_min = None, pr_max = None\<rparr>,
                           d_amenities = [], d_images = [], d_verificationHistory = [],
                           d_popularityScore = 0, d_status = HotelActive,
                           d_availability = None, d_isFeatured = False\<rparr>
           in s\<lparr>directory :=
                  snd (upsert_by (\<lambda>d. d_hotelId d = h_id formattedHotel) upd new (directory s))\<rparr>))"

text \<open>
  \<^verbatim>\<open>Promise.all\<close> over the upserts, none of which rejects; they are applied in the order
  of the list.
\<close>

definition updateOrCreateHotels :: "env \<Rightarrow> store \<Rightarrow> fmt_hotel list \<Rightarrow> store" where
  "updateOrCreateHotels e s hs = foldl (updateOrCreateHotel e) s hs"

datatype source = FromCache | FromApi | FromFallback

record search_result =
  sr_hotels :: "fmt_hotel list"
  sr_total :: int
  sr_source :: source

text \<open>
  The parameters \<^verbatim>\<open>rooms = 1\<close> and \<^verbatim>\<open>guests = 1\<close> default when the caller leaves them
  undefined; the cache is asked with the five parameters and no filters.
\<close>

definition default_to :: "int option \<Rightarrow> int \<Rightarrow> int" where
  "default_to n d = (case n of None \<Rightarrow> d | Some v \<Rightarrow> v)"

definition cache_params :: "search_params \<Rightarrow> search_params" where
  "cache_params p =
     \<lparr>location = location p, checkIn = checkIn p, checkOut = checkOut p,
      rooms = Some (default_to (rooms p) 1), guests = Some (default_to (guests p) 1),
      additionalFilters = None\<rparr>"

definition searchPayload :: "search_params \<Rightarrow> search_payload" where
  "searchPayload p =
     \<lparr>destination = location p, checkInDate = checkIn p, checkOutDate = checkOut p,
      adults = default_to (guests p) 1, children = 0, pl_currency = ''EUR'',
      nationality = ''DE''\<rparr>"

text \<open>
  The body of the \<^verbatim>\<open>try\<close> block of \<^verbatim>\<open>searchHotels\<close>. \<open>Inl\<close> is an exception that
  reaches the \<^verbatim>\<open>catch\<close>; the store is the one at the moment of the throw. The response
  time, a difference of two clock readings, is not part of the model.
\<close>

definition search_try :: "env \<Rightarrow> store \<Rightarrow> search_params \<Rightarrow> (error + search_result) \<times> store" where
  "search_try e s p =
     (case findValidCache e s (cache_params p) of
        Inl err \<Rightarrow> (Inl err, s)
      | Inr (Some cachedResult) \<Rightarrow>
          (case recordHit e s cachedResult of
             Inl err \<Rightarrow> (Inl err, s)
           | Inr (saved, s') \<Rightarrow>
               (Inr \<lparr>sr_hotels = res_hotels (results saved),
                     sr_total = res_totalResults (results saved),
                     sr_source = FromCache\<rparr>, s'))
      | Inr None \<Rightarrow>
          (case tss_search e (searchPayload p) of
             Inl err \<Rightarrow> (Inl err, s)
           | Inr response \<Rightarrow>
               (case Option.bind response hotels of
                  None \<Rightarrow> (Inr \<lparr>sr_hotels = [], sr_total = 0, sr_source = FromApi\<rparr>, s)
                | Some raw \<Rightarrow>
                    (let formattedHotels = formatHotelResults raw;
                         n = int_or (Option.bind response totalResults)
                               (int (length formattedHotels))
                     in (case createOrUpdateCache e s (cache_params p)
                                \<lparr>res_hotels = formattedHotels, res_totalResults = n,
                                 searchTimestamp = now e\<rparr> 2 of
                           Inl err \<Rightarrow> (Inl err, s)
                         | Inr (ent, s') \<Rightarrow>
                             (Inr \<lparr>sr_hotels = formattedHotels, sr_total = n,
                                   sr_source = FromApi\<rparr>,
                              updateOrCreateHotels e s' formattedHotels))))))"

definition searchHotels :: "env \<Rightarrow> store \<Rightarrow> search_params \<Rightarrow> (error + search_result) \<times> store" where
  "searchHotels e s p =
     (case search_try e s p of
        (Inr r, s') \<Rightarrow> (Inr r, s')
      | (Inl err, s') \<Rightarrow>
          (let fallbackResults = searchHotelsFromDatabase e s' p
           in if length (db_hotels fallbackResults) > 0
              then (Inr \<lparr>sr_hotels = db_hotels fallbackResults,
                         sr_total = db_total fallbackResults,
                         sr_source = FromFallback\<rparr>, s')
              else (Inl SearchFailed, s')))"

text \<open>
  \<^verbatim>\<open>Array.prototype.find\<close> with a test on the lower-cased name: reading
  \<^verbatim>\<open>hotel.name.toLowerCase()\<close> of a hotel without a name raises a TypeError, at the
  moment the scan reaches that hotel.
\<close>

fun find_by_name :: "(string \<Rightarrow> bool) \<Rightarrow> fmt_hotel list \<Rightarrow> error + fmt_hotel option" where
  "find_by_name P [] = Inr None"
| "find_by_name P (h # hs) =
     (case h_name h of
        None \<Rightarrow> Inl TypeError
      | Some n \<Rightarrow> if P (toLowerCase n) then Inr (Some h) else find_by_name P hs)"

record name_match =
  found :: bool
  hotel :: "fmt_hotel option"
  confidence :: rat

text \<open>The matching of \<^verbatim>\<open>searchHotelByName\<close> on the hotels the search returned.\<close>

definition match_name :: "string \<Rightarrow> fmt_hotel list \<Rightarrow> error + name_match" where
  "match_name wanted hs =
     (case find_by_name (\<lambda>n. n = toLowerCase wanted) hs of
        Inl err \<Rightarrow> Inl err
      | Inr (Some exactMatch) \<Rightarrow>
          Inr \<lparr>found = True, hotel = Some exactMatch, confidence = 1\<rparr>
      | Inr None \<Rightarrow>
          (case find_by_name
                  (\<lambda>n. includes_str n (toLowerCase wanted) \<or>
                        includes_str (toLowerCase wanted) n) hs of
             Inl err \<Rightarrow> Inl err
           | Inr (Some partialMatch) \<Rightarrow>
               Inr \<lparr>found = True, hotel = Some partialMatch, confidence = 4 / 5\<rparr>
           | Inr None \<Rightarrow> Inr \<lparr>found = False, hotel = None, confidence = 0\<rparr>))"

text \<open>
  Both callers of \<^verbatim>\<open>searchHotels\<close> below pass the location and the two dates only.
\<close>

definition search_by :: "string \<Rightarrow> date \<Rightarrow> date \<Rightarrow> search_params" where
  "search_by loc ci co =
     \<lparr>location = loc, checkIn = ci, checkOut = co, rooms = None, guests = None,
      additionalFilters = None\<rparr>"

definition searchHotelByName ::
    "env \<Rightarrow> store \<Rightarrow> string \<Rightarrow> string \<Rightarrow> date \<Rightarrow> date \<Rightarrow> (error + name_match) \<times> store" where
  "searchHotelByName e s wanted loc ci co =
     (case searchHotels e s (search_by loc ci co) of
        (Inl err, s') \<Rightarrow> (Inl (NameSearchFailed err), s')
      | (Inr searchResults, s') \<Rightarrow>
          (case match_name wanted (sr_hotels searchResults) of
             Inl err \<Rightarrow> (Inl (NameSearchFailed err), s')
           | Inr m \<Rightarrow> (Inr m, s')))"

text \<open>
  The first filter of \<^verbatim>\<open>getAlternativeHotels\<close>, which reads every hotel's name.
\<close>

fun reject_name :: "string \<Rightarrow> fmt_hotel list \<Rightarrow> error + fmt_hotel list" where
  "reject_name n [] = Inr []"
| "reject_name n (h # hs) =
     (case h_name h of
        None \<Rightarrow> Inl TypeError
      | Some m \<Rightarrow>
          (case reject_name n hs of
             Inl err \<Rightarrow> Inl err
           | Inr r \<Rightarrow> Inr (if toLowerCase m \<noteq> toLowerCase n then h # r else r)))"

definition near_rating :: "rat \<Rightarrow> fmt_hotel \<Rightarrow> bool" where
  "near_rating r h = (case h_starRating h of None \<Rightarrow> False | Some v \<Rightarrow> \<bar>v - r\<bar> \<le> 1 / 2)"

definition num0 :: "rat option \<Rightarrow> rat" where
  "num0 n = (case n of None \<Rightarrow> 0 | Some v \<Rightarrow> v)"

definition price_of :: "fmt_hotel \<Rightarrow> rat" where
  "price_of h = (case h_price h of None \<Rightarrow> 0 | Some pr \<Rightarrow> num0 (amount pr))"

definition rank_score :: "fmt_hotel \<Rightarrow> rat" where
  "rank_score h = num0 (h_starRating h) * (7 / 10) + num0 (h_reviewScore h) * (3 / 10)"

text \<open>\<^verbatim>\<open>xs.slice(0, n)\<close>: a negative \<open>n\<close> counts from the end.\<close>

definition slice0 :: "int \<Rightarrow> 'a list \<Rightarrow> 'a list" where
  "slice0 n xs = (if 0 \<le> n then take (nat n) xs else take (length xs - nat (- n)) xs)"

text \<open>
  The filtering, ranking and cut of \<^verbatim>\<open>getAlternativeHotels\<close> on the hotels the search
  returned. The rating filter applies when a truthy rating is given, with the range 0.5
  of the source; the sort is stable and descending on the score.
\<close>

definition select_alternatives ::
    "string \<Rightarrow> (rat \<times> rat) option \<Rightarrow> rat option \<Rightarrow> int \<Rightarrow> fmt_hotel list \<Rightarrow> error + fmt_hotel list" where
  "select_alternatives originalHotelName priceRange stars limit hs =
     (case reject_name originalHotelName hs of
        Inl err \<Rightarrow> Inl err
      | Inr named \<Rightarrow>
          (let rated = (case stars of
                          None \<Rightarrow> named
                        | Some r \<Rightarrow> if r \<noteq> 0 then filter (near_rating r) named else named);
               priced = (case priceRange of
                           None \<Rightarrow> rated
                         | Some (lo, hi) \<Rightarrow>
                             filter (\<lambda>h. lo \<le> price_of h \<and> price_of h \<le> hi) rated)
           in Inr (slice0 limit (sort_key (\<lambda>h. - rank_score h) priced))))"

definition getAlternativeHotels ::
    "env \<Rightarrow> store \<Rightarrow> string \<Rightarrow> string \<Rightarrow> date \<Rightarrow> date \<Rightarrow> (rat \<times> rat) option \<Rightarrow> rat option \<Rightarrow>
     int option \<Rightarrow> (error + fmt_hotel list) \<times> store" where
  "getAlternativeHotels e s originalHotelName loc ci co priceRange stars limit =
     (case searchHotels e s (search_by loc ci co) of
        (Inl err, s') \<Rightarrow> (Inl (AlternativesFailed err), s')
      | (Inr searchResults, s') \<Rightarrow>
          (case select_alternatives originalHotelName priceRange stars (default_to limit 5)
                  (sr_hotels searchResults) of
             Inl err \<Rightarrow> (Inl (AlternativesFailed err), s')
           | Inr alternatives \<Rightarrow> (Inr alternatives, s')))"

text \<open>
  \<^verbatim>\<open>verifyRecommendedHotels\<close>: one recommended hotel after the other, each inside its own
  \<^verbatim>\<open>try\<close>; the three lists of the result grow in the order of the input.
\<close>

record recommended =
  rec_name :: string
  rec_starRating :: "rat option"

datatype unavailable_reason = NoAlternatives | Failed error

record verification_results =
  verified_hotels :: "(recommended \<times> fmt_hotel option \<times> rat) list"
  alternative_hotels :: "(recommended \<times> fmt_hotel list) list"
  unavailable_hotels :: "(recommended \<times> unavailable_reason) list"

definition verify_one ::
    "env \<Rightarrow> string \<Rightarrow> date \<Rightarrow> date \<Rightarrow> verification_results \<times> store \<Rightarrow> recommended \<Rightarrow>
     verification_results \<times> store" where
  "verify_one e loc ci co acc recommendedHotel =
     (case acc of
        (res, s) \<Rightarrow>
          (case searchHotelByName e s (rec_name recommendedHotel) loc ci co of
             (Inl err, s') \<Rightarrow>
               (res\<lparr>unavailable_hotels :=
                      unavailable_hotels res @ [(recommendedHotel, Failed err)]\<rparr>, s')
           | (Inr searchResult, s') \<Rightarrow>
               if found searchResult
               then (res\<lparr>verified_hotels := verified_hotels res @
                            [(recommendedHotel, hotel searchResult, confidence searchResult)]\<rparr>,
                     s')
               else (case getAlternativeHotels e s' (rec_name recommendedHotel) loc ci co None
                             (rec_starRating recommendedHotel) (Some 3) of
                       (Inl err, s'') \<Rightarrow>
                         (res\<lparr>unavailable_hotels :=
                                unavailable_hotels res @ [(recommendedHotel, Failed err)]\<rparr>, s'')
                     | (Inr alternatives, s'') \<Rightarrow>
                         if length alternatives > 0
                         then (res\<lparr>alternative_hotels :=
                                     alternative_hotels res @
                                       [(recommendedHotel, alternatives)]\<rparr>, s'')
                         else (res\<lparr>unavailable_hotels :=
                                     unavailable_hotels res @
                                       [(recommendedHotel, NoAlternatives)]\<rparr>, s''))))"

definition verifyRecommendedHotels ::
    "env \<Rightarrow> store \<Rightarrow> recommended list \<Rightarrow> string \<Rightarrow> date \<Rightarrow> date \<Rightarrow> verification_results \<times> store" where
  "verifyRecommendedHotels e s hs loc ci co =
     foldl (verify_one e loc ci co)
       (\<lparr>verified_hotels = [], alternative_hotels = [], unavailable_hotels = []\<rparr>, s) hs"

section \<open>The specification's formulas\<close>



text \<open>
  The coalescing rule as the specification writes it: the first value when it is present
  and not null, else the second.
\<close>

definition spec_coalesce :: "'a option \<Rightarrow> 'a option \<Rightarrow> 'a option" where
  "spec_coalesce a b = (case a of Some v \<Rightarrow> Some v | None \<Rightarrow> b)"



text \<open>
  A hotel has the wanted name when the two are equal after lower-casing, and a similar
  name when one lower-cased name occurs in the other. A hotel without a name has neither.
\<close>

definition same_name :: "string \<Rightarrow> fmt_hotel \<Rightarrow> bool" where
  "same_name wanted h =
     (case h_name h of None \<Rightarrow> False | Some n \<Rightarrow> toLowerCase n = toLowerCase wanted)"

definition similar_name :: "string \<Rightarrow> fmt_hotel \<Rightarrow> bool" where
  "similar_name wanted h =
     (case h_name h of
        None \<Rightarrow> False
      | Some n \<Rightarrow> includes_str (toLowerCase n) (toLowerCase wanted) \<or>
                  includes_str (toLowerCase wanted) (toLowerCase n))"


text \<open>
  What the code does with a pair of values: the first when it is present and truthy, the
  specification's coalescing when it is absent, and the second when the first is present
  but falsy (the number 0, the empty string).
\<close>

definition coalesced_num :: "rat option \<Rightarrow> rat option \<Rightarrow> rat option \<Rightarrow> bool" where
  "coalesced_num a b out = (if a = Some 0 then out = b else out = spec_coalesce a b)"

definition coalesced_str :: "string option \<Rightarrow> string option \<Rightarrow> string option \<Rightarrow> bool" where
  "coalesced_str a b out = (if a = Some [] then out = b else out = spec_coalesce a b)"



section \<open>Sample worlds\<close>

text \<open>
  Concrete inputs for the closed theorems. The clock of \<open>quiet_env\<close> reads
  2025-06-01T00:00:00Z; its inventory service fails every call, its regular expressions
  test for a case-insensitive occurrence of the pattern, and no store operation rejects.
\<close>

definition quiet_env :: env where
  "quiet_env =
     \<lparr>now = 1748736000000,
      tss_search = (\<lambda>_. Inl TransportError),
      regexp = (\<lambda>pat. Some (\<lambda>v. includes_str (toLowerCase v) (toLowerCase pat))),
      cache_find_fault = None, cache_save_fault = None, cache_update_fault = None,
      hotel_find_fault = None, hotel_update_fault = (\<lambda>_. None)\<rparr>"

definition empty_store :: store where
  "empty_store = \<lparr>cache = [], directory = []\<rparr>"

definition no_results :: cache_results where
  "no_results = \<lparr>res_hotels = [], res_totalResults = 0, searchTimestamp = 1748736000000\<rparr>"

text \<open>A stay in Paris from 2025-04-29 to 2025-05-01, a month before the clock.\<close>

definition past_stay :: search_params where
  "past_stay = search_by ''Paris'' (Time 1745884800000) (Time 1746057600000)"

text \<open>A stay in Paris from 2025-06-01 to 2025-06-03.\<close>

definition paris_stay :: search_params where
  "paris_stay = search_by ''Paris'' (Time 1748736000000) (Time 1748908800000)"

text \<open>
  A cache with one entry for \<open>paris_stay\<close> that expired a second before the clock and
  whose status and flag were never updated.
\<close>

definition stale_entry :: cache_entry where
  "stale_entry =
     \<lparr>searchKey = ''paris_2025-06-01_2025-06-03_r1_g1'', searchParams = cache_params paris_stay,
      results = no_results, hitCount = 1, lastAccessed = 1748728800000,
      expiresAt = 1748735999000, isExpired = False, status = Active\<rparr>"

definition fresh_entry :: cache_entry where
  "fresh_entry = stale_entry\<lparr>expiresAt := 1748743200000\<rparr>"

text \<open>
  A directory document: four stars, review score 8.5, 500 reviews, one verified and one
  failed verification, not featured. Its terms are 20, 25.5, 10 and 7.5.
\<close>

definition sample_doc :: hotel_doc where
  "sample_doc =
     \<lparr>d_oid = 1, d_hotelId = Some ''H1'', d_name = Some ''Hotel Lutetia'',
      d_description = None, d_address = Some ''45 Boulevard Raspail'', d_city = Some ''Paris'',
      d_country = Some ''France'', d_starRating = Some 4, d_reviewScore = Some (17 / 2),
      d_reviewCount = Some 500, d_priceRange = \<lparr>pr_min = Some 200, pr_max = Some 400\<rparr>,
      d_amenities = [], d_images = [],
      d_verificationHistory =
        [\<lparr>originalQuery = ''Lutetia'', v_confidence = 1, verified = True\<rparr>,
         \<lparr>originalQuery = ''Lutetia Paris'', v_confidence = 0, verified = False\<rparr>],
      d_popularityScore = 0, d_status = HotelActive, d_availability = Some ''available'',
      d_isFeatured = False\<rparr>"






definition paris_directory :: store where
  "paris_directory = \<lparr>cache = [], directory = [sample_doc]\<rparr>"

text \<open>
  A record of the inventory service. Its \<^verbatim>\<open>price.total\<close> is present and 0, next to a
  \<^verbatim>\<open>totalPrice\<close> of 640.
\<close>

definition grand_raw :: raw_hotel where
  "grand_raw =
     \<lparr>id = Some ''tss-1'', hotelId = Some ''GHP'', name = Some ''The Grand Hotel Paris'',
      hotelName = None, address = Some ''2 Rue Scribe'', city = Some ''Paris'',
      country = Some ''France'', latitude = None, longitude = None,
      starRating = Some 4, category = None, reviewScore = Some 9, rating = None,
      reviewCount = Some 1200, numberOfReviews = None,
      price = Some \<lparr>total = Some 0, currency = None, perNight = None\<rparr>,
      totalPrice = Some 640, pricePerNight = Some 320,
      amenities = None, facilities = Some [''wifi''], images = None, photos = None,
      description = None, hotelDescription = None, distance = None, availability = None\<rparr>"

text \<open>
  \<open>api_env\<close> is \<open>quiet_env\<close> with an inventory service that answers every search with
  that one record; in \<open>flaky_env\<close> the write to the cache is rejected as well; in
  \<open>broken_env\<close> the inventory service fails and so does every query of the directory.
\<close>

definition api_env :: env where
  "api_env =
     quiet_env\<lparr>tss_search :=
       (\<lambda>_. Inr (Some \<lparr>hotels = Some [grand_raw], totalResults = None\<rparr>))\<rparr>"

definition flaky_env :: env where
  "flaky_env = api_env\<lparr>cache_update_fault := Some StoreError\<rparr>"

definition broken_env :: env where
  "broken_env = quiet_env\<lparr>hotel_find_fault := Some StoreError\<rparr>"

section \<open>Facts about the sample worlds\<close>

lemma quiet_env_simps:
  "now quiet_env = 1748736000000"
  "cache_find_fault quiet_env = None"
  "cache_save_fault quiet_env = None"
  "cache_update_fault quiet_env = None"
  "hotel_find_fault quiet_env = None"
  "hotel_update_fault quiet_env i = None"
  "tss_search quiet_env pl = Inl TransportError"
  by (simp_all add: quiet_env_def)

lemma past_key: "generateSearchKey past_stay = Inr ''paris_2025-04-29_2025-05-01_r1_g1''"
  by code_simp

lemma past_checkOut: "checkOut past_stay = Time 1746057600000"
  by (simp add: past_stay_def search_by_def)

lemma paris_key:
  "generateSearchKey (cache_params paris_stay) = Inr ''paris_2025-06-01_2025-06-03_r1_g1''"
  by code_simp

section \<open>The cache signature\<close>










section \<open>Cache lookup and store\<close>

text \<open>
  C4. A lookup that returns an entry returns an entry of the cache that carries the
  signature of the request, has status active, is not flagged expired and expires
  strictly after the clock; and when the cache holds no such entry (and neither the
  signature nor the query fails) the lookup returns none.
\<close>

theorem findValidCache_only_valid:
  "(findValidCache e s p = Inr (Some ent) \<longrightarrow>
      ent \<in> set (cache s) \<and> generateSearchKey p = Inr (searchKey ent) \<and>
      status ent = Active \<and> \<not> isExpired ent \<and> now e < expiresAt ent) \<and>
   (generateSearchKey p = Inr k \<and> cache_find_fault e = None \<and>
    \<not> (\<exists>x \<in> set (cache s). searchKey x = k \<and> status x = Active \<and> \<not> isExpired x \<and>
                              now e < expiresAt x) \<longrightarrow>
      findValidCache e s p = Inr None)"
  by (auto simp: findValidCache_def find_Some_iff find_None_iff split: sum.splits option.splits)

lemma fresh_hit:
  "findValidCache quiet_env (empty_store\<lparr>cache := [fresh_entry]\<rparr>) (cache_params paris_stay) =
     Inr (Some fresh_entry)"
  by (simp add: findValidCache_def paris_key quiet_env_simps fresh_entry_def stale_entry_def)

text \<open>
  The theorem at a cache whose only entry is valid, and at a cache whose only entry
  expired a second ago with its status and flag untouched.
\<close>

theorem findValidCache_only_valid_witness:
  "findValidCache quiet_env (empty_store\<lparr>cache := [fresh_entry]\<rparr>) (cache_params paris_stay) =
     Inr (Some fresh_entry) \<and>
   status fresh_entry = Active \<and> \<not> isExpired fresh_entry \<and>
   now quiet_env < expiresAt fresh_entry \<and>
   expiresAt stale_entry < now quiet_env \<and> status stale_entry = Active \<and>
   \<not> isExpired stale_entry \<and>
   findValidCache quiet_env (empty_store\<lparr>cache := [stale_entry]\<rparr>) (cache_params paris_stay) =
     Inr None"
proof -
  have miss: "\<not> (\<exists>x \<in> set (cache (empty_store\<lparr>cache := [stale_entry]\<rparr>)).
           searchKey x = ''paris_2025-06-01_2025-06-03_r1_g1'' \<and> status x = Active \<and>
           \<not> isExpired x \<and> now quiet_env < expiresAt x)"
    by (simp add: stale_entry_def quiet_env_simps)
  have q: "cache_find_fault quiet_env = None" by (simp add: quiet_env_simps)
  from findValidCache_only_valid [of quiet_env "empty_store\<lparr>cache := [fresh_entry]\<rparr>"
      "cache_params paris_stay" fresh_entry] fresh_hit
  have a: "status fresh_entry = Active \<and> \<not> isExpired fresh_entry \<and>
           now quiet_env < expiresAt fresh_entry" by blast
  from findValidCache_only_valid [of quiet_env "empty_store\<lparr>cache := [stale_entry]\<rparr>"
      "cache_params paris_stay" _ "''paris_2025-06-01_2025-06-03_r1_g1''"] paris_key q miss
  have b: "findValidCache quiet_env (empty_store\<lparr>cache := [stale_entry]\<rparr>)
             (cache_params paris_stay) = Inr None" by blast
  have c: "expiresAt stale_entry < now quiet_env \<and> status stale_entry = Active \<and>
           \<not> isExpired stale_entry"
    by (simp add: stale_entry_def quiet_env_simps)
  from a b c fresh_hit show ?thesis by blast
qed

lemma upsert_by_result:
  "upsert_by P upd new xs = (y, ys) \<Longrightarrow> Q new \<Longrightarrow> (\<And>x. Q (upd x)) \<Longrightarrow> Q y"
  by (induction xs arbitrary: ys) (auto split: if_splits prod.splits)

text \<open>
  Whatever the dates of the request, the entry that \<open>createOrUpdateCache\<close> writes is
  active and not flagged: the middleware that expires past-dated entries runs on
  \<open>save\<close> only.
\<close>

lemma createOrUpdateCache_always_active:
  assumes "createOrUpdateCache e s p r ttl = Inr (ent, s')"
  shows "status ent = Active \<and> \<not> isExpired ent"
proof -
  from assms obtain k upd new c where
    u: "upsert_by (\<lambda>ent. searchKey ent = k) upd new (cache s) = (ent, c)" and
    n: "status new = Active \<and> \<not> isExpired new" and
    d: "\<And>x. status (upd x) = Active \<and> \<not> isExpired (upd x)"
    by (auto simp: createOrUpdateCache_def Let_def split: sum.splits option.splits prod.splits)
  from upsert_by_result [OF u, of "\<lambda>x. status x = Active \<and> \<not> isExpired x"] n d
  show ?thesis by blast
qed

text \<open>
  The middleware does run on the \<open>save\<close> of \<open>recordHit\<close>: an entry whose check-out date
  lies before the midnight of the clock comes back expired from its first recorded hit.
\<close>

lemma recordHit_expires_past_checkout:
  assumes "recordHit e s ent = Inr (ent', s')"
    and "date_lt (checkOut (searchParams ent)) (now e - now e mod ms_per_day)"
  shows "status ent' = Expired \<and> isExpired ent'"
  using assms
  by (auto simp: recordHit_def save_def pre_save_def Let_def split: option.splits)

text \<open>
  C2, evaluated. The check-out date of \<open>past_stay\<close> lies a month before the midnight of
  the clock; the store with a two-hour lifetime writes an entry that is active and not
  flagged, and the lookup that follows returns it.
\<close>

theorem createOrUpdateCache_past_checkout_stays_active:
  "date_lt (checkOut past_stay) (now quiet_env - now quiet_env mod ms_per_day) \<and>
   (case createOrUpdateCache quiet_env empty_store past_stay no_results 2 of
      Inl err \<Rightarrow> False
    | Inr (ent, s1) \<Rightarrow>
        status ent = Active \<and> \<not> isExpired ent \<and>
        findValidCache quiet_env s1 past_stay = Inr (Some ent))"
  by (simp add: createOrUpdateCache_def findValidCache_def past_key quiet_env_simps empty_store_def
      date_lt_def past_checkOut ms_per_day_def ms_per_hour_def Let_def)

section \<open>The popularity score\<close>


















section \<open>The search orchestration\<close>

lemma api_env_simps:
  "now api_env = 1748736000000"
  "cache_find_fault api_env = None"
  "cache_save_fault api_env = None"
  "cache_update_fault api_env = None"
  "hotel_find_fault api_env = None"
  "hotel_update_fault api_env i = None"
  "tss_search api_env pl = Inr (Some \<lparr>hotels = Some [grand_raw], totalResults = None\<rparr>)"
  by (simp_all add: api_env_def quiet_env_def)

lemma flaky_env_simps:
  "now flaky_env = 1748736000000"
  "cache_find_fault flaky_env = None"
  "cache_update_fault flaky_env = Some StoreError"
  "hotel_find_fault flaky_env = None"
  "tss_search flaky_env pl = Inr (Some \<lparr>hotels = Some [grand_raw], totalResults = None\<rparr>)"
  by (simp_all add: flaky_env_def api_env_def quiet_env_def)

lemma broken_env_simps:
  "cache_find_fault broken_env = None"
  "hotel_find_fault broken_env = Some StoreError"
  "tss_search broken_env pl = Inl TransportError"
  by (simp_all add: broken_env_def quiet_env_def)

lemma miss_empty:
  "cache_find_fault e = None \<Longrightarrow>
     findValidCache e \<lparr>cache = [], directory = ds\<rparr> (cache_params paris_stay) = Inr None"
  by (simp add: findValidCache_def paris_key)

lemma db_quiet_empty:
  "searchHotelsFromDatabase quiet_env empty_store paris_stay = \<lparr>db_hotels = [], db_total = 0\<rparr>"
  by (simp add: searchHotelsFromDatabase_def quiet_env_def empty_store_def)

lemma db_quiet_paris:
  "searchHotelsFromDatabase quiet_env paris_directory paris_stay =
     \<lparr>db_hotels = [formatHotelDetails (toObject sample_doc)], db_total = 1\<rparr>"
  by code_simp

lemma db_flaky_empty:
  "searchHotelsFromDatabase flaky_env empty_store paris_stay = \<lparr>db_hotels = [], db_total = 0\<rparr>"
  by (simp add: searchHotelsFromDatabase_def flaky_env_def api_env_def quiet_env_def
      empty_store_def)

lemma api_write:
  "\<exists>ent s'. createOrUpdateCache api_env empty_store (cache_params paris_stay)
      \<lparr>res_hotels = formatHotelResults [grand_raw],
       res_totalResults = int_or None (int (length [grand_raw])),
       searchTimestamp = now api_env\<rparr> 2 = Inr (ent, s')"
  by (simp add: createOrUpdateCache_def paris_key api_env_simps empty_store_def Let_def)

lemma paris_stay_eq: "search_by ''Paris'' (Time 1748736000000) (Time 1748908800000) = paris_stay"
  by (simp add: paris_stay_def)

lemma search_try_store: "search_try e s p = (Inl err, s') \<Longrightarrow> s' = s"
  by (auto simp: search_try_def Let_def split: sum.splits option.splits prod.splits)

text \<open>The response of \<open>searchHotels\<close>, read off the outcome of the \<^verbatim>\<open>try\<close> block.\<close>

lemma searchHotels_response:
  "fst (searchHotels e s p) =
     (case fst (search_try e s p) of
        Inr r \<Rightarrow> Inr r
      | Inl err \<Rightarrow>
          if db_hotels (searchHotelsFromDatabase e s p) \<noteq> []
          then Inr \<lparr>sr_hotels = db_hotels (searchHotelsFromDatabase e s p),
                    sr_total = db_total (searchHotelsFromDatabase e s p),
                    sr_source = FromFallback\<rparr>
          else Inl SearchFailed)"
proof (cases "search_try e s p")
  case (Pair r s')
  show ?thesis
  proof (cases r)
    case (Inl err)
    with Pair have "s' = s" by (auto dest: search_try_store)
    with Pair Inl show ?thesis by (simp add: searchHotels_def Let_def)
  next
    case (Inr res)
    with Pair show ?thesis by (simp add: searchHotels_def)
  qed
qed

lemma api_search_try:
  "fst (search_try api_env empty_store paris_stay) =
     Inr \<lparr>sr_hotels = formatHotelResults [grand_raw], sr_total = 1, sr_source = FromApi\<rparr>"
proof -
  have m: "findValidCache api_env empty_store (cache_params paris_stay) = Inr None"
    by (simp add: empty_store_def miss_empty api_env_simps)
  from api_write obtain ent s' where
    "createOrUpdateCache api_env empty_store (cache_params paris_stay)
      \<lparr>res_hotels = formatHotelResults [grand_raw],
       res_totalResults = int_or None (int (length [grand_raw])),
       searchTimestamp = now api_env\<rparr> 2 = Inr (ent, s')" by blast
  then show ?thesis
    by (simp add: search_try_def m api_env_simps Let_def formatHotelResults_def int_or_def)
qed

lemma api_search_response:
  "fst (searchHotels api_env empty_store paris_stay) =
     Inr \<lparr>sr_hotels = formatHotelResults [grand_raw], sr_total = 1, sr_source = FromApi\<rparr>"
  by (simp add: searchHotels_response api_search_try)

text \<open>
  C1. The chain in its order. A valid cached entry whose hit is recorded is the answer,
  tagged as from the cache, whatever the inventory service would say. On a miss, hotels
  from the inventory service, once the cache entry is written, are the answer, tagged as
  from the service. On a miss with a failing inventory call the directory is queried by
  the location: its hotels, when there are any, are the answer, tagged as fallback, and
  with none the search fails with the inventory-unavailable error.
\<close>

theorem searchHotels_fallback_chain:
  "(findValidCache e s (cache_params p) = Inr (Some ent) \<and> recordHit e s ent = Inr (ent', s') \<longrightarrow>
      searchHotels e s p =
        (Inr \<lparr>sr_hotels = res_hotels (results ent), sr_total = res_totalResults (results ent),
              sr_source = FromCache\<rparr>, s')) \<and>
   (findValidCache e s (cache_params p) = Inr None \<and>
    tss_search e (searchPayload p) = Inr (Some d) \<and> hotels d = Some raw \<and>
    createOrUpdateCache e s (cache_params p)
      \<lparr>res_hotels = formatHotelResults raw,
       res_totalResults = int_or (totalResults d) (int (length raw)),
       searchTimestamp = now e\<rparr> 2 = Inr (ent', s') \<longrightarrow>
      searchHotels e s p =
        (Inr \<lparr>sr_hotels = formatHotelResults raw,
              sr_total = int_or (totalResults d) (int (length raw)),
              sr_source = FromApi\<rparr>,
         updateOrCreateHotels e s' (formatHotelResults raw))) \<and>
   (findValidCache e s (cache_params p) = Inr None \<and> tss_search e (searchPayload p) = Inl err \<longrightarrow>
      searchHotels e s p =
        (if db_hotels (searchHotelsFromDatabase e s p) \<noteq> []
         then (Inr \<lparr>sr_hotels = db_hotels (searchHotelsFromDatabase e s p),
                    sr_total = db_total (searchHotelsFromDatabase e s p),
                    sr_source = FromFallback\<rparr>, s)
         else (Inl SearchFailed, s)))"
  by (auto simp: searchHotels_def search_try_def recordHit_def save_def pre_save_def Let_def
      formatHotelResults_def split: sum.splits option.splits)

text \<open>
  The theorem at four worlds: a failing inventory service over an empty directory and
  over a directory with a hotel in Paris, a valid cached entry, and an answering
  inventory service over empty stores.
\<close>

theorem searchHotels_fallback_chain_witness:
  "findValidCache quiet_env empty_store (cache_params paris_stay) = Inr None \<and>
   tss_search quiet_env (searchPayload paris_stay) = Inl TransportError \<and>
   searchHotels quiet_env empty_store paris_stay = (Inl SearchFailed, empty_store) \<and>
   findValidCache quiet_env paris_directory (cache_params paris_stay) = Inr None \<and>
   searchHotels quiet_env paris_directory paris_stay =
     (Inr \<lparr>sr_hotels = [formatHotelDetails (toObject sample_doc)], sr_total = 1,
           sr_source = FromFallback\<rparr>, paris_directory) \<and>
   findValidCache quiet_env (empty_store\<lparr>cache := [fresh_entry]\<rparr>) (cache_params paris_stay) =
     Inr (Some fresh_entry) \<and>
   (\<exists>ent' s'. recordHit quiet_env (empty_store\<lparr>cache := [fresh_entry]\<rparr>) fresh_entry =
        Inr (ent', s') \<and>
      searchHotels quiet_env (empty_store\<lparr>cache := [fresh_entry]\<rparr>) paris_stay =
        (Inr \<lparr>sr_hotels = [], sr_total = 0, sr_source = FromCache\<rparr>, s')) \<and>
   findValidCache api_env empty_store (cache_params paris_stay) = Inr None \<and>
   (\<exists>ent' s'. createOrUpdateCache api_env empty_store (cache_params paris_stay)
        \<lparr>res_hotels = formatHotelResults [grand_raw], res_totalResults = 1,
         searchTimestamp = now api_env\<rparr> 2 = Inr (ent', s') \<and>
      searchHotels api_env empty_store paris_stay =
        (Inr \<lparr>sr_hotels = formatHotelResults [grand_raw], sr_total = 1, sr_source = FromApi\<rparr>,
         updateOrCreateHotels api_env s' (formatHotelResults [grand_raw])))"
proof -
  have m1: "findValidCache quiet_env empty_store (cache_params paris_stay) = Inr None"
    by (simp add: empty_store_def miss_empty quiet_env_simps)
  have t1: "tss_search quiet_env (searchPayload paris_stay) = Inl TransportError"
    by (simp add: quiet_env_simps)
  from searchHotels_fallback_chain [of quiet_env empty_store paris_stay _ _ _ _ _ TransportError]
    m1 t1 db_quiet_empty
  have r1: "searchHotels quiet_env empty_store paris_stay = (Inl SearchFailed, empty_store)"
    by simp
  have m2: "findValidCache quiet_env paris_directory (cache_params paris_stay) = Inr None"
    by (simp add: paris_directory_def miss_empty quiet_env_simps)
  from searchHotels_fallback_chain [of quiet_env paris_directory paris_stay _ _ _ _ _ TransportError]
    m2 t1 db_quiet_paris
  have r2: "searchHotels quiet_env paris_directory paris_stay =
     (Inr \<lparr>sr_hotels = [formatHotelDetails (toObject sample_doc)], sr_total = 1,
           sr_source = FromFallback\<rparr>, paris_directory)"
    by simp
  have "\<exists>ent' s'. recordHit quiet_env (empty_store\<lparr>cache := [fresh_entry]\<rparr>) fresh_entry =
        Inr (ent', s')"
    by (simp add: recordHit_def save_def quiet_env_simps Let_def)
  then obtain e3 s3 where
    h3: "recordHit quiet_env (empty_store\<lparr>cache := [fresh_entry]\<rparr>) fresh_entry = Inr (e3, s3)"
    by blast
  have f3: "res_hotels (results fresh_entry) = [] \<and> res_totalResults (results fresh_entry) = 0"
    by (simp add: fresh_entry_def stale_entry_def no_results_def)
  from searchHotels_fallback_chain [of quiet_env "empty_store\<lparr>cache := [fresh_entry]\<rparr>"
      paris_stay fresh_entry e3 s3] fresh_hit h3 f3
  have r3: "searchHotels quiet_env (empty_store\<lparr>cache := [fresh_entry]\<rparr>) paris_stay =
        (Inr \<lparr>sr_hotels = [], sr_total = 0, sr_source = FromCache\<rparr>, s3)"
    by simp
  have m4: "findValidCache api_env empty_store (cache_params paris_stay) = Inr None"
    by (simp add: empty_store_def miss_empty api_env_simps)
  have i4: "int_or None (int (length [grand_raw])) = 1" by (simp add: int_or_def)
  from api_write i4 obtain e4 s4 where
    w4: "createOrUpdateCache api_env empty_store (cache_params paris_stay)
        \<lparr>res_hotels = formatHotelResults [grand_raw], res_totalResults = 1,
         searchTimestamp = now api_env\<rparr> 2 = Inr (e4, s4)"
    by auto
  from searchHotels_fallback_chain [of api_env empty_store paris_stay _ e4 s4
      "\<lparr>hotels = Some [grand_raw], totalResults = None\<rparr>" "[grand_raw]"] m4 w4 i4
  have r4: "searchHotels api_env empty_store paris_stay =
        (Inr \<lparr>sr_hotels = formatHotelResults [grand_raw], sr_total = 1, sr_source = FromApi\<rparr>,
         updateOrCreateHotels api_env s4 (formatHotelResults [grand_raw]))"
    by (simp add: api_env_simps)
  from m1 t1 r1 m2 r2 fresh_hit h3 r3 m4 w4 r4 show ?thesis by blast
qed

text \<open>
  A rejected upsert into the directory changes nothing in the response: the fault of the
  upsert is read by \<open>updateOrCreateHotel\<close> alone, which swallows it.
\<close>

lemma upsert_fault_pre_save:
  "pre_save (e\<lparr>hotel_update_fault := f\<rparr>) ent = pre_save e ent"
  by (simp add: pre_save_def)

lemma upsert_fault_cache:
  "findValidCache (e\<lparr>hotel_update_fault := f\<rparr>) s p = findValidCache e s p"
  "recordHit (e\<lparr>hotel_update_fault := f\<rparr>) s ent = recordHit e s ent"
  "createOrUpdateCache (e\<lparr>hotel_update_fault := f\<rparr>) s p r ttl = createOrUpdateCache e s p r ttl"
  "searchHotelsFromDatabase (e\<lparr>hotel_update_fault := f\<rparr>) s p = searchHotelsFromDatabase e s p"
  by (simp_all add: findValidCache_def recordHit_def save_def upsert_fault_pre_save
      createOrUpdateCache_def searchHotelsFromDatabase_def
      cong: sum.case_cong option.case_cong)

lemma upsert_fault_search_try:
  "fst (search_try (e\<lparr>hotel_update_fault := f\<rparr>) s p) = fst (search_try e s p)"
  unfolding search_try_def upsert_fault_cache
  by (simp add: Let_def split: sum.splits option.splits prod.splits)

lemma searchHotels_upsert_fault_irrelevant:
  "fst (searchHotels (e\<lparr>hotel_update_fault := f\<rparr>) s p) = fst (searchHotels e s p)"
  by (simp only: searchHotels_response upsert_fault_search_try upsert_fault_cache)

text \<open>
  C3, evaluated. In \<open>flaky_env\<close> the cache misses and the inventory service returns a
  hotel, but the write to the cache is rejected: the search fails with the
  inventory-unavailable error. In \<open>api_env\<close>, the same world without the rejected write,
  the search returns the formatted hotel tagged as from the service.
\<close>

theorem searchHotels_cache_write_failure:
  "findValidCache flaky_env empty_store (cache_params paris_stay) = Inr None \<and>
   tss_search flaky_env (searchPayload paris_stay) =
     Inr (Some \<lparr>hotels = Some [grand_raw], totalResults = None\<rparr>) \<and>
   cache_update_fault flaky_env = Some StoreError \<and>
   searchHotels flaky_env empty_store paris_stay = (Inl SearchFailed, empty_store) \<and>
   fst (searchHotels api_env empty_store paris_stay) =
     Inr \<lparr>sr_hotels = formatHotelResults [grand_raw], sr_total = 1, sr_source = FromApi\<rparr>"
proof -
  have m: "findValidCache flaky_env empty_store (cache_params paris_stay) = Inr None"
    by (simp add: empty_store_def miss_empty flaky_env_simps)
  have w: "createOrUpdateCache flaky_env empty_store (cache_params paris_stay) r 2 =
      Inl StoreError" for r
    by (simp add: createOrUpdateCache_def paris_key flaky_env_simps)
  have t: "search_try flaky_env empty_store paris_stay = (Inl StoreError, empty_store)"
    by (simp add: search_try_def m w flaky_env_simps Let_def)
  have f: "searchHotels flaky_env empty_store paris_stay = (Inl SearchFailed, empty_store)"
    by (simp add: searchHotels_def t db_flaky_empty)
  from m f api_search_response show ?thesis by (simp add: flaky_env_simps)
qed

text \<open>
  C10. The fallback search has no failing outcome: when the pattern does not compile or
  the query is rejected it returns the empty result. So when the inventory call and the
  directory query both fail the search fails with the inventory-unavailable error; and
  no other error ever leaves \<open>searchHotels\<close>.
\<close>

theorem searchHotelsFromDatabase_never_fails:
  "((regexp e (location p) = None \<or> hotel_find_fault e = Some ferr) \<longrightarrow>
      searchHotelsFromDatabase e s p = \<lparr>db_hotels = [], db_total = 0\<rparr>) \<and>
   (findValidCache e s (cache_params p) = Inr None \<and> tss_search e (searchPayload p) = Inl err \<and>
    (regexp e (location p) = None \<or> hotel_find_fault e = Some ferr) \<longrightarrow>
      searchHotels e s p = (Inl SearchFailed, s)) \<and>
   (fst (searchHotels e s p) = Inl err' \<longrightarrow> err' = SearchFailed)"
proof (intro conjI impI)
  assume "regexp e (location p) = None \<or> hotel_find_fault e = Some ferr"
  then show "searchHotelsFromDatabase e s p = \<lparr>db_hotels = [], db_total = 0\<rparr>"
    by (auto simp: searchHotelsFromDatabase_def split: option.splits)
next
  assume a: "findValidCache e s (cache_params p) = Inr None \<and>
      tss_search e (searchPayload p) = Inl err \<and>
      (regexp e (location p) = None \<or> hotel_find_fault e = Some ferr)"
  then have "searchHotelsFromDatabase e s p = \<lparr>db_hotels = [], db_total = 0\<rparr>"
    by (auto simp: searchHotelsFromDatabase_def split: option.splits)
  with a show "searchHotels e s p = (Inl SearchFailed, s)"
    by (simp add: searchHotels_def search_try_def)
next
  assume "fst (searchHotels e s p) = Inl err'"
  then show "err' = SearchFailed"
    by (simp add: searchHotels_response split: sum.splits if_splits)
qed

text \<open>
  The theorem at \<open>broken_env\<close>, whose directory holds a hotel in Paris that the rejected
  query never returns.
\<close>

theorem searchHotelsFromDatabase_never_fails_witness:
  "hotel_find_fault broken_env = Some StoreError \<and>
   searchHotelsFromDatabase broken_env paris_directory paris_stay =
     \<lparr>db_hotels = [], db_total = 0\<rparr> \<and>
   findValidCache broken_env paris_directory (cache_params paris_stay) = Inr None \<and>
   tss_search broken_env (searchPayload paris_stay) = Inl TransportError \<and>
   searchHotels broken_env paris_directory paris_stay = (Inl SearchFailed, paris_directory) \<and>
   fst (searchHotels broken_env paris_directory paris_stay) = Inl SearchFailed"
proof -
  have h: "hotel_find_fault broken_env = Some StoreError" by (simp add: broken_env_simps)
  have m: "findValidCache broken_env paris_directory (cache_params paris_stay) = Inr None"
    by (simp add: paris_directory_def miss_empty broken_env_simps)
  have t: "tss_search broken_env (searchPayload paris_stay) = Inl TransportError"
    by (simp add: broken_env_simps)
  from searchHotelsFromDatabase_never_fails
    [of broken_env paris_stay StoreError paris_directory TransportError SearchFailed] h m t
  show ?thesis by simp
qed

section \<open>Matching a recommended hotel by name\<close>

lemma includes_str_refl: "includes_str a a"
  by (cases a) simp_all

lemma same_name_similar: "same_name wanted h \<Longrightarrow> similar_name wanted h"
  by (auto simp: same_name_def similar_name_def includes_str_refl split: option.splits)




lemma searchHotelByName_response:
  "fst (searchHotelByName e s wanted loc ci co) =
     (case fst (searchHotels e s (search_by loc ci co)) of
        Inl err \<Rightarrow> Inl (NameSearchFailed err)
      | Inr r \<Rightarrow>
          (case match_name wanted (sr_hotels r) of
             Inl err \<Rightarrow> Inl (NameSearchFailed err)
           | Inr m \<Rightarrow> Inr m))"
  by (simp add: searchHotelByName_def split: prod.splits sum.splits)




text \<open>The same example through \<open>verifyRecommendedHotels\<close>.\<close>

lemma match_grand:
  "match_name ''Grand Hotel Paris'' (formatHotelResults [grand_raw]) =
     Inr \<lparr>found = True, hotel = Some (formatHotel grand_raw), confidence = 4 / 5\<rparr>"
  by code_simp

lemma verify_one_found:
  assumes "fst (searchHotelByName e s (rec_name x) loc ci co) = Inr m" and "found m"
  shows "fst (verify_one e loc ci co (res, s) x) =
     res\<lparr>verified_hotels := verified_hotels res @ [(x, hotel m, confidence m)]\<rparr>"
proof (cases "searchHotelByName e s (rec_name x) loc ci co")
  case (Pair r s')
  with assms(1) have "r = Inr m" by simp
  with Pair assms(2) show ?thesis by (simp add: verify_one_def)
qed

lemma verify_example:
  "map (\<lambda>(r, h, c). (rec_name r, c))
     (verified_hotels (fst (verifyRecommendedHotels api_env empty_store
        [\<lparr>rec_name = ''Grand Hotel Paris'', rec_starRating = None\<rparr>] ''Paris''
        (Time 1748736000000) (Time 1748908800000)))) = [(''Grand Hotel Paris'', 4 / 5)]"
proof -
  have "fst (searchHotelByName api_env empty_store ''Grand Hotel Paris'' ''Paris''
          (Time 1748736000000) (Time 1748908800000)) =
        Inr \<lparr>found = True, hotel = Some (formatHotel grand_raw), confidence = 4 / 5\<rparr>"
    by (simp add: searchHotelByName_response paris_stay_eq api_search_response match_grand)
  then show ?thesis
    by (simp add: verifyRecommendedHotels_def verify_one_found)
qed

section \<open>Alternatives to a recommended hotel\<close>
























section \<open>Normalising inventory records\<close>

lemma or_num_coalesced: "coalesced_num a b (or_num a b)"
  by (auto simp: coalesced_num_def or_num_def truthy_num_def spec_coalesce_def
      split: option.splits)

lemma or_str_coalesced: "coalesced_str a b (or_str a b)"
  by (auto simp: coalesced_str_def or_str_def truthy_str_def spec_coalesce_def
      split: option.splits)

lemma str_or_coalesced: "coalesced_str a (Some d) (Some (str_or a d))"
  by (auto simp: coalesced_str_def str_or_def spec_coalesce_def split: option.splits)

lemma list_or_coalesced:
  "Some (list_or (or_list a b) []) = spec_coalesce (spec_coalesce a b) (Some [])"
  by (auto simp: list_or_def or_list_def spec_coalesce_def split: option.splits)

text \<open>
  C9, as the code has it. \<open>formatHotelResults\<close> formats each record on its own. Of each
  pair it takes the first value when that is present and truthy and the second when the
  first is absent, which is the specification's coalescing; when the first is present
  but falsy (0 or the empty string) it takes the second all the same. The currency and
  the availability fall back to \<open>EUR\<close> and \<open>available\<close> in the same way, and the
  amenities and the images are the first list present, or the empty list.
\<close>

theorem formatHotelResults_coalesces:
  "formatHotelResults hs = map formatHotel hs \<and>
   coalesced_str (id h) (hotelId h) (h_id (formatHotel h)) \<and>
   coalesced_str (name h) (hotelName h) (h_name (formatHotel h)) \<and>
   coalesced_num (starRating h) (category h) (h_starRating (formatHotel h)) \<and>
   coalesced_num (reviewScore h) (rating h) (h_reviewScore (formatHotel h)) \<and>
   coalesced_num (reviewCount h) (numberOfReviews h) (h_reviewCount (formatHotel h)) \<and>
   coalesced_str (description h) (hotelDescription h) (h_description (formatHotel h)) \<and>
   (\<exists>pr. h_price (formatHotel h) = Some pr \<and>
      coalesced_num (Option.bind (price h) total) (totalPrice h) (amount pr) \<and>
      coalesced_num (Option.bind (price h) perNight) (pricePerNight h) (p_perNight pr) \<and>
      coalesced_str (Option.bind (price h) currency) (Some ''EUR'') (Some (p_currency pr))) \<and>
   Some (h_amenities (formatHotel h)) =
     spec_coalesce (spec_coalesce (amenities h) (facilities h)) (Some []) \<and>
   Some (h_images (formatHotel h)) =
     spec_coalesce (spec_coalesce (images h) (photos h)) (Some []) \<and>
   (\<exists>a. h_availability (formatHotel h) = Some a \<and>
      coalesced_str (availability h) (Some ''available'') (Some a))"
  by (simp add: formatHotelResults_def formatHotel_def or_num_coalesced or_str_coalesced
      str_or_coalesced list_or_coalesced)

text \<open>
  Against C9 as stated: the record \<open>grand_raw\<close> has a \<^verbatim>\<open>price.total\<close> that is present,
  not null and 0, and its formatted amount is the 640 of \<^verbatim>\<open>totalPrice\<close>.
\<close>

theorem formatHotelResults_zero_total_counterexample:
  "Option.bind (price grand_raw) total = Some 0 \<and> totalPrice grand_raw = Some 640 \<and>
   spec_coalesce (Option.bind (price grand_raw) total) (totalPrice grand_raw) = Some 0 \<and>
   map (\<lambda>f. Option.bind (h_price f) amount) (formatHotelResults [grand_raw]) = [Some 640]"
  by code_simp

end
